theory Spec2Isabelle
  imports Main
begin

section \<open>JavaScript values read and built by the extension\<close>

text \<open>
  The values \<^verbatim>\<open>extension.js\<close> handles: settings read from the editor, the body of an
  HTTP response, and the object it sends over the WebSocket. A number is given by the
  string JavaScript prints for it (what \<^verbatim>\<open>String(n)\<close> returns: \<^verbatim>\<open>8765\<close>,
  \<^verbatim>\<open>0.5\<close>, \<^verbatim>\<open>1e+21\<close>, \<^verbatim>\<open>NaN\<close>), which is all the extension ever does
  with one; an object is its list of own properties in insertion order.
\<close>

datatype js_value =
    JUndefined
  | JNull
  | JBool bool
  | JNum string
  | JStr string
  | JArr "js_value list"
  | JObj "(string \<times> js_value) list"

text \<open>Truthiness, as \<^verbatim>\<open>a || b\<close> and \<^verbatim>\<open>if (x)\<close> test it.\<close>

fun truthy :: "js_value \<Rightarrow> bool" where
  "truthy JUndefined = False"
| "truthy JNull = False"
| "truthy (JBool b) = b"
| "truthy (JNum n) = (n \<noteq> ''0'' \<and> n \<noteq> ''NaN'')"
| "truthy (JStr s) = (s \<noteq> [])"
| "truthy (JArr xs) = True"
| "truthy (JObj kvs) = True"

definition js_or :: "js_value \<Rightarrow> js_value \<Rightarrow> js_value" where
  "js_or a b = (if truthy a then a else b)"

text \<open>The decimal digits of a natural number.\<close>

fun string_of_nat :: "nat \<Rightarrow> string" where
  "string_of_nat n =
     (if n < 10 then [''0123456789'' ! n]
      else string_of_nat (n div 10) @ [''0123456789'' ! (n mod 10)])"

declare string_of_nat.simps [simp del]

fun join :: "string \<Rightarrow> string list \<Rightarrow> string" where
  "join sep [] = []"
| "join sep [x] = x"
| "join sep (x # y # ys) = x @ sep @ join sep (y # ys)"

text \<open>The string a template literal \<^verbatim>\<open>`${v}`\<close> puts in place of a value.\<close>

fun to_string :: "js_value \<Rightarrow> string" where
  "to_string JUndefined = ''undefined''"
| "to_string JNull = ''null''"
| "to_string (JBool b) = (if b then ''true'' else ''false'')"
| "to_string (JNum n) = n"
| "to_string (JStr s) = s"
| "to_string (JArr xs) =
     join '','' (map (\<lambda>x. if x = JUndefined \<or> x = JNull then [] else to_string x) xs)"
| "to_string (JObj kvs) = ''[object Object]''"

text \<open>An own property of an object; \<open>None\<close> where the value has no such property.\<close>

fun field :: "js_value \<Rightarrow> string \<Rightarrow> js_value option" where
  "field (JObj kvs) k = map_of kvs k"
| "field v k = None"

datatype js_error = Error string

fun message :: "js_error \<Rightarrow> string" where
  "message (Error m) = m"

text \<open>
  Reading \<^verbatim>\<open>.status\<close> off a value: a TypeError on \<^verbatim>\<open>null\<close> and
  \<^verbatim>\<open>undefined\<close>, the property of an object, and \<^verbatim>\<open>undefined\<close> on every
  other value (no primitive or array has a property of that name).
\<close>

fun get_status :: "js_value \<Rightarrow> js_error + js_value" where
  "get_status JUndefined =
     Inl (Error ''Cannot read properties of undefined (reading 'status')'')"
| "get_status JNull = Inl (Error ''Cannot read properties of null (reading 'status')'')"
| "get_status (JObj kvs) = Inr (case map_of kvs ''status'' of Some v \<Rightarrow> v | None \<Rightarrow> JUndefined)"
| "get_status v = Inr JUndefined"

section \<open>Settings\<close>

text \<open>
  \<^verbatim>\<open>vscode.workspace.getConfiguration(section).get(key)\<close> looks the setting
  \<^verbatim>\<open>section.key\<close> up: the user's value when one is set, else the default a manifest
  contributes for that very name, else \<^verbatim>\<open>undefined\<close>.
\<close>

type_synonym settings = "string \<Rightarrow> js_value option"

record vscode_env =
  user_settings :: settings
  contributed_defaults :: settings

definition config_get :: "vscode_env \<Rightarrow> string \<Rightarrow> string \<Rightarrow> js_value" where
  "config_get env section key =
     (case user_settings env (section @ ''.'' @ key) of
        Some v \<Rightarrow> v
      | None \<Rightarrow>
          (case contributed_defaults env (section @ ''.'' @ key) of
             Some d \<Rightarrow> d
           | None \<Rightarrow> JUndefined))"

text \<open>The one setting \<^verbatim>\<open>package.json\<close> declares under \<^verbatim>\<open>contributes.configuration\<close>.\<close>

definition manifest_defaults :: settings where
  "manifest_defaults = [''agentSystem.serverUrl'' \<mapsto> JStr ''ws://localhost:8765'']"

definition fresh_install :: vscode_env where
  "fresh_install = \<lparr>user_settings = Map.empty, contributed_defaults = manifest_defaults\<rparr>"

definition getServerUrl :: "vscode_env \<Rightarrow> js_value" where
  "getServerUrl env = js_or (config_get env ''sochen'' ''serverUrl'') (JStr ''http://localhost:3000'')"

definition websocketUrl :: "vscode_env \<Rightarrow> string" where
  "websocketUrl env =
     (let websocketHost = js_or (config_get env ''ai-agent-system'' ''websocketHost'') (JStr ''localhost'');
          websocketPort = js_or (config_get env ''ai-agent-system'' ''websocketPort'') (JNum ''8765'')
      in ''ws://'' @ to_string websocketHost @ '':'' @ to_string websocketPort)"

section \<open>checkConnection\<close>

text \<open>
  \<^verbatim>\<open>axios.get\<close> either resolves with a response, of which the function reads
  \<^verbatim>\<open>data\<close> alone, or rejects with an Error object (a network failure, a status
  outside 2xx). What the server answers at a URL is a parameter.
\<close>

datatype axios_outcome = Resolved js_value | Rejected js_error

definition status_url :: "vscode_env \<Rightarrow> string" where
  "status_url env = to_string (getServerUrl env) @ ''/status''"

text \<open>The body of the \<^verbatim>\<open>try\<close> block: \<open>Inl\<close> is a thrown error.\<close>

definition checkConnection_try :: "(string \<Rightarrow> axios_outcome) \<Rightarrow> vscode_env \<Rightarrow> js_error + bool" where
  "checkConnection_try axios_get env =
     (case axios_get (status_url env) of
        Rejected e \<Rightarrow> Inl e
      | Resolved response_data \<Rightarrow>
          (case get_status response_data of
             Inl e \<Rightarrow> Inl e
           | Inr v \<Rightarrow> Inr (v = JStr ''operational'')))"

text \<open>
  The whole function: what it returns or throws to its caller, and the lines it writes
  with \<^verbatim>\<open>console.error\<close>.
\<close>

definition checkConnection ::
  "(string \<Rightarrow> axios_outcome) \<Rightarrow> vscode_env \<Rightarrow> (js_error + bool) \<times> string list" where
  "checkConnection axios_get env =
     (case checkConnection_try axios_get env of
        Inr b \<Rightarrow> (Inr b, [])
      | Inl e \<Rightarrow> (Inr False, [''Error connecting to Sochen server: '' @ message e]))"

text \<open>The \<^verbatim>\<open>status\<close> property of a response body, where it is an object that has one.\<close>

definition status_field :: "js_value \<Rightarrow> js_value option" where
  "status_field d = field d ''status''"

section \<open>The WebSocket side of the extension\<close>

datatype ready_state = CONNECTING | OPEN | CLOSING | CLOSED

text \<open>
  A WebSocket object: its URL, its \<^verbatim>\<open>readyState\<close>, and the
  \<^verbatim>\<open>taskDescription\<close> its handlers closed over. A reference to one is its index in
  the list of the objects created so far.
\<close>

record web_socket =
  ws_url :: string
  ready :: ready_state
  taskDescription :: string

text \<open>
  What the extension does to sockets, in order: \<open>New r url\<close> is
  \<^verbatim>\<open>new WebSocket(url)\<close> returning \<open>r\<close>; \<open>Send r v s\<close> is
  \<^verbatim>\<open>send(JSON.stringify(v))\<close> called on \<open>r\<close> while its \<^verbatim>\<open>readyState\<close> is \<open>s\<close>;
  \<open>Close r s\<close> is \<^verbatim>\<open>close()\<close> called on \<open>r\<close> in state \<open>s\<close>.
\<close>

datatype socket_op = New nat string | Send nat js_value ready_state | Close nat ready_state

datatype notification = InformationMessage string | ErrorMessage string

text \<open>
  A value a handler prints without looking into it (the data of a message event, the
  event object of an error): what \<^verbatim>\<open>console.log\<close> writes for it and what a template
  literal makes of it.
\<close>

record printed =
  inspected :: string
  stringified :: string

text \<open>
  The module's state: the variable \<^verbatim>\<open>let socket;\<close> (\<open>None\<close> is
  \<^verbatim>\<open>undefined\<close>), the sockets created, what was done and shown, and the errors
  with which runs of the command were rejected.
\<close>

record extension =
  socket :: "nat option"
  sockets :: "web_socket list"
  socket_ops :: "socket_op list"
  shown :: "notification list"
  console :: "string list"
  rejected :: "js_error list"

definition activated :: extension where
  "activated =
     \<lparr>socket = None, sockets = [], socket_ops = [], shown = [],
      console = [''Sochen extension is now active!''], rejected = []\<rparr>"

text \<open>
  \<^verbatim>\<open>startWebSocket\<close>. The constructor of the \<^verbatim>\<open>ws\<close> package throws a SyntaxError
  on a URL it cannot parse, and the function does not catch it: then nothing is assigned
  and no handler is installed. Which URLs the constructor refuses is a parameter:
  \<open>new_WebSocket url\<close> is the error thrown, \<open>None\<close> when the socket is created.
\<close>

definition startWebSocket ::
  "(string \<Rightarrow> js_error option) \<Rightarrow> vscode_env \<Rightarrow> string \<Rightarrow> extension \<Rightarrow> js_error + extension" where
  "startWebSocket new_WebSocket env task st =
     (case new_WebSocket (websocketUrl env) of
        Some e \<Rightarrow> Inl e
      | None \<Rightarrow>
          (let r = length (sockets st)
           in Inr (st\<lparr>socket := Some r,
                 sockets := sockets st @
                   [\<lparr>ws_url = websocketUrl env, ready = CONNECTING, taskDescription = task\<rparr>],
                 socket_ops := socket_ops st @ [New r (websocketUrl env)]\<rparr>)))"

text \<open>
  The command \<^verbatim>\<open>ai-agent-system.startTask\<close>; its argument is what
  \<^verbatim>\<open>showInputBox\<close> resolved to (\<open>None\<close> when the box was dismissed). An error
  thrown by \<^verbatim>\<open>startWebSocket\<close> rejects the promise of the command, after the
  notification has been shown.
\<close>

definition startTask ::
  "(string \<Rightarrow> js_error option) \<Rightarrow> vscode_env \<Rightarrow> string option \<Rightarrow> extension \<Rightarrow> extension" where
  "startTask new_WebSocket env input st =
     (case input of
        None \<Rightarrow> st
      | Some task \<Rightarrow>
          if task \<noteq> [] then
            (let st1 = st\<lparr>shown := shown st @ [InformationMessage (''Starting task: '' @ task)]\<rparr>
             in case startWebSocket new_WebSocket env task st1 of
                  Inr st2 \<Rightarrow> st2
                | Inl e \<Rightarrow> st1\<lparr>rejected := rejected st1 @ [e]\<rparr>)
          else st)"

text \<open>The object line 315 passes to \<^verbatim>\<open>JSON.stringify\<close>.\<close>

definition start_message :: "string \<Rightarrow> js_value" where
  "start_message task = JObj [(''task'', JStr task)]"

text \<open>
  The \<^verbatim>\<open>onopen\<close> handler installed on socket \<open>r\<close>. It sends through the module
  variable \<^verbatim>\<open>socket\<close>, not through the object it was installed on.
\<close>

definition onopen :: "nat \<Rightarrow> extension \<Rightarrow> extension" where
  "onopen r st =
     (let st1 = st\<lparr>console := console st @ [''Connected to WebSocket server'']\<rparr>
      in case socket st1 of
           None \<Rightarrow> st1
         | Some cur \<Rightarrow>
             st1\<lparr>socket_ops := socket_ops st1 @
               [Send cur (start_message (taskDescription (sockets st1 ! r))) (ready (sockets st1 ! cur))]\<rparr>)"

definition onmessage :: "printed \<Rightarrow> extension \<Rightarrow> extension" where
  "onmessage event_data st =
     st\<lparr>console := console st @ [''Received message: '' @ inspected event_data],
        shown := shown st @ [InformationMessage (''Agent response: '' @ stringified event_data)]\<rparr>"

definition onclose :: "extension \<Rightarrow> extension" where
  "onclose st =
     st\<lparr>console := console st @ [''Disconnected from WebSocket server''],
        shown := shown st @ [InformationMessage ''AI Agents task completed or disconnected.'']\<rparr>"

definition onerror :: "printed \<Rightarrow> extension \<Rightarrow> extension" where
  "onerror err st =
     st\<lparr>console := console st @ [''WebSocket error: '' @ inspected err],
        shown := shown st @ [ErrorMessage (''AI Agents WebSocket error: '' @ stringified err)]\<rparr>"

definition set_ready :: "nat \<Rightarrow> ready_state \<Rightarrow> extension \<Rightarrow> extension" where
  "set_ready r s st = st\<lparr>sockets := (sockets st)[r := (sockets st ! r)\<lparr>ready := s\<rparr>]\<rparr>"

definition deactivate :: "extension \<Rightarrow> extension" where
  "deactivate st =
     (let st1 =
        (case socket st of
           None \<Rightarrow> st
         | Some cur \<Rightarrow>
             set_ready cur (if ready (sockets st ! cur) = CLOSED then CLOSED else CLOSING)
               (st\<lparr>socket_ops := socket_ops st @ [Close cur (ready (sockets st ! cur))]\<rparr>))
      in st1\<lparr>console := console st1 @ [''Agent System extension deactivated'']\<rparr>)"

text \<open>
  What reaches the extension: the command with the user's input, the events of a socket
  it created (an event of a socket that does not exist, or that its state rules out,
  does not occur and leaves the state as it is), and deactivation.
\<close>

datatype event =
    StartTask "string option"
  | OnOpen nat
  | OnMessage nat printed
  | OnClose nat
  | OnError nat printed
  | Deactivate

fun fire ::
  "(string \<Rightarrow> js_error option) \<Rightarrow> vscode_env \<Rightarrow> extension \<Rightarrow> event \<Rightarrow> extension" where
  "fire new_WebSocket env st (StartTask input) = startTask new_WebSocket env input st"
| "fire new_WebSocket env st (OnOpen r) =
     (if r < length (sockets st) \<and> ready (sockets st ! r) = CONNECTING
      then onopen r (set_ready r OPEN st) else st)"
| "fire new_WebSocket env st (OnMessage r event_data) =
     (if r < length (sockets st) \<and> ready (sockets st ! r) = OPEN
      then onmessage event_data st else st)"
| "fire new_WebSocket env st (OnClose r) =
     (if r < length (sockets st) \<and> ready (sockets st ! r) \<noteq> CLOSED
      then onclose (set_ready r CLOSED st) else st)"
| "fire new_WebSocket env st (OnError r err) =
     (if r < length (sockets st) then onerror err st else st)"
| "fire new_WebSocket env st Deactivate = deactivate st"

definition run ::
  "(string \<Rightarrow> js_error option) \<Rightarrow> vscode_env \<Rightarrow> event list \<Rightarrow> extension" where
  "run new_WebSocket env evs = foldl (fire new_WebSocket env) activated evs"

text \<open>
  A constructor that refuses the URL \<^verbatim>\<open>ws://localhost:65536\<close>, whose port is out of
  range, with the error the \<^verbatim>\<open>ws\<close> package throws for it, and accepts every other
  URL; and settings that make \<^verbatim>\<open>startWebSocket\<close> build that URL.
\<close>

definition refuses_port_65536 :: "string \<Rightarrow> js_error option" where
  "refuses_port_65536 url =
     (if url = ''ws://localhost:65536'' then Some (Error ''Invalid URL: ws://localhost:65536'')
      else None)"

definition port_65536 :: vscode_env where
  "port_65536 =
     \<lparr>user_settings = [''ai-agent-system.websocketPort'' \<mapsto> JStr ''65536''],
      contributed_defaults = manifest_defaults\<rparr>"



text \<open>Some send reached a socket that was not open.\<close>

fun sent_while :: "socket_op \<Rightarrow> ready_state option" where
  "sent_while (Send r v s) = Some s"
| "sent_while op = None"

definition send_on_unopened :: "extension \<Rightarrow> bool" where
  "send_on_unopened st = list_ex (\<lambda>op. case sent_while op of Some s \<Rightarrow> s \<noteq> OPEN | None \<Rightarrow> False) (socket_ops st)"





section \<open>The workflow server\<close>

text \<open>
  The Python backend (\<^verbatim>\<open>agent_system/server.py\<close>, \<^verbatim>\<open>graph.py\<close>,
  \<^verbatim>\<open>state.py\<close>) is not among the sources; the repository holds its client and the
  guide's test scripts only. Every definition of this section is written from the
  specification, and says so.
\<close>

text \<open>Modelled from the spec: the values of \<^verbatim>\<open>status\<close> (section 3); \<^verbatim>\<open>state.py\<close> is missing.\<close>

datatype status = PENDING | RUNNING | COMPLETED | FAILED | CANCELLED

text \<open>Modelled from the spec: the terminal statuses of the state machine (section 4.2).\<close>

fun terminal :: "status \<Rightarrow> bool" where
  "terminal COMPLETED = True"
| "terminal FAILED = True"
| "terminal CANCELLED = True"
| "terminal PENDING = False"
| "terminal RUNNING = False"

text \<open>Modelled from the spec: the fixed roster of agents (section 1; the README names them).\<close>

datatype agent_id =
  Orchestrator | Architect | Coder | Reviewer | Tester | Refactorer | Security | Documentation

text \<open>Modelled from the spec: an entry of \<^verbatim>\<open>workflow_history\<close> (section 3).\<close>

record history_entry =
  agent_id :: agent_id
  entered_at :: nat
  exited_at :: nat
  resulting_status :: status

text \<open>Modelled from the spec: an entry of \<^verbatim>\<open>messages\<close> (section 3).\<close>

record agent_message =
  agent :: agent_id
  content :: string
  timestamp :: nat

text \<open>Modelled from the spec: an issue an agent reports, blocking or not (section 4.2).\<close>

record issue =
  blocking :: bool
  description :: string

text \<open>Modelled from the spec: WorkflowState (section 3); \<^verbatim>\<open>state.py\<close> is missing.\<close>

record WorkflowState =
  task :: string
  status :: status
  files :: "(string \<times> string) list"
  messages :: "agent_message list"
  workflow_history :: "history_entry list"
  code_issues :: "issue list"
  review_notes :: "string list"
  security_findings :: "issue list"
  active_agent :: "agent_id option"
  error :: "string option"

text \<open>
  Modelled from the spec: the Agent capability \<^verbatim>\<open>run(state) -> state\<close>, which may fail
  with a recoverable or a fatal error (section 6). The first argument of an agent is the
  number of the attempt, so that a transient failure can pass.
\<close>

datatype agent_result = Updated WorkflowState | RecoverableAgentError | FatalAgentError string

text \<open>
  Modelled from the spec: the fields only the Coordinator writes stay as they were, the
  messages are appended to and no file is deleted (section 3 and 4.1); an agent that
  returns anything else has violated its contract.
\<close>

definition respects_contract :: "WorkflowState \<Rightarrow> WorkflowState \<Rightarrow> bool" where
  "respects_contract cur new =
     (task new = task cur \<and> status new = status cur \<and>
      workflow_history new = workflow_history cur \<and>
      active_agent new = active_agent cur \<and> error new = error cur \<and>
      take (length (messages cur)) (messages new) = messages cur \<and>
      list_all (\<lambda>p. p \<in> set (map fst (files new))) (map fst (files cur)))"

text \<open>Modelled from the spec: the iteration budget of the Routing Policy (section 4.2).\<close>

record budget =
  max_invocations :: nat
  max_repeats :: nat

text \<open>Modelled from the spec: how often an agent was invoked, read off \<^verbatim>\<open>workflow_history\<close>.\<close>

definition invocations :: "agent_id \<Rightarrow> WorkflowState \<Rightarrow> nat" where
  "invocations a s = length (filter (\<lambda>e. agent_id e = a) (workflow_history s))"

text \<open>
  Modelled from the spec: the budget is exceeded when the total invocation count (the
  length of \<^verbatim>\<open>workflow_history\<close>) or the count of any single agent is over its
  maximum (section 4.2).
\<close>

definition budget_exceeded :: "budget \<Rightarrow> WorkflowState \<Rightarrow> bool" where
  "budget_exceeded b s =
     (max_invocations b < length (workflow_history s) \<or>
      list_ex (\<lambda>e. max_repeats b < invocations (agent_id e) s) (workflow_history s))"

text \<open>
  Modelled from the spec: the allow-list of the Routing Policy (section 4.2): the agent a
  workflow starts with, the successor on the happy path (\<open>None\<close>: the agent is the
  terminal one) and the agent blocking issues are routed back to.
\<close>

record routing_table =
  entry_agent :: agent_id
  on_clean :: "agent_id \<Rightarrow> agent_id option"
  on_blocking :: "agent_id \<Rightarrow> agent_id"

text \<open>
  Modelled from the spec: whether the agent that just ran reports a blocking issue in
  the result slot it owns (section 3): the Reviewer in \<^verbatim>\<open>code_issues\<close>, Security in
  \<^verbatim>\<open>security_findings\<close>.
\<close>

fun reports_blocking :: "agent_id \<Rightarrow> WorkflowState \<Rightarrow> bool" where
  "reports_blocking Reviewer s = list_ex blocking (code_issues s)"
| "reports_blocking Security s = list_ex blocking (security_findings s)"
| "reports_blocking a s = False"

text \<open>Modelled from the spec: what the Routing Policy returns (section 2 and 4.2).\<close>

datatype verdict = Next agent_id | Terminate status "string option"

text \<open>
  Modelled from the spec: the Routing Policy \<^verbatim>\<open>next(state)\<close> (section 4.2);
  \<^verbatim>\<open>graph.py\<close> is missing. An exceeded budget forces FAILED; a cancellation request
  seen at the decision gives CANCELLED; blocking issues go back to the agent that
  resolves them; else the happy path, which ends in COMPLETED.
\<close>

definition next_agent :: "routing_table \<Rightarrow> budget \<Rightarrow> bool \<Rightarrow> WorkflowState \<Rightarrow> verdict" where
  "next_agent t b cancel s =
     (if budget_exceeded b s then Terminate FAILED (Some ''iteration_limit_exceeded'')
      else if cancel then Terminate CANCELLED None
      else case active_agent s of
             None \<Rightarrow> Terminate FAILED (Some ''no_active_agent'')
           | Some a \<Rightarrow>
               if reports_blocking a s then Next (on_blocking t a)
               else (case on_clean t a of
                       Some a' \<Rightarrow> Next a'
                     | None \<Rightarrow> Terminate COMPLETED None))"

text \<open>
  Modelled from the spec: what a Workflow Coordinator is configured with: the agents, the
  routing table, the budget and the fixed retry count (section 4.2 and 4.3).
\<close>

record coordinator =
  agents :: "agent_id \<Rightarrow> nat \<Rightarrow> WorkflowState \<Rightarrow> agent_result"
  table :: routing_table
  limits :: budget
  retry_limit :: nat

text \<open>
  Modelled from the spec: one invocation with its retries (section 4.3): a recoverable
  error is retried up to the retry count and is fatal after that.
\<close>

fun invoke :: "(nat \<Rightarrow> WorkflowState \<Rightarrow> agent_result) \<Rightarrow> nat \<Rightarrow> nat \<Rightarrow> WorkflowState \<Rightarrow> agent_result" where
  "invoke run_agent 0 attempt s =
     (case run_agent attempt s of
        RecoverableAgentError \<Rightarrow> FatalAgentError ''retries_exhausted''
      | r \<Rightarrow> r)"
| "invoke run_agent (Suc n) attempt s =
     (case run_agent attempt s of
        RecoverableAgentError \<Rightarrow> invoke run_agent n (Suc attempt) s
      | r \<Rightarrow> r)"

text \<open>Modelled from the spec: the history entry of one invocation (section 3).\<close>

definition entry :: "agent_id \<Rightarrow> nat \<Rightarrow> status \<Rightarrow> history_entry" where
  "entry a now st = \<lparr>agent_id = a, entered_at = now, exited_at = Suc now, resulting_status = st\<rparr>"

text \<open>
  Modelled from the spec: a fatal error of an invocation (section 4.3): status FAILED,
  the error recorded, no further agent.
\<close>

definition fail :: "agent_id \<Rightarrow> nat \<Rightarrow> string \<Rightarrow> WorkflowState \<Rightarrow> WorkflowState" where
  "fail a now msg s =
     s\<lparr>status := FAILED, error := Some msg, active_agent := None,
       workflow_history := workflow_history s @ [entry a now FAILED]\<rparr>"

text \<open>
  Modelled from the spec: one turn of the Coordinator's internal loop (section 4.3):
  invoke the agent, append the history entry, ask the Routing Policy, and either hand
  the turn to the next agent or set the terminal status.
\<close>

definition agent_step :: "coordinator \<Rightarrow> bool \<Rightarrow> nat \<Rightarrow> agent_id \<Rightarrow> WorkflowState \<Rightarrow> WorkflowState" where
  "agent_step co cancel now a s =
     (case invoke (agents co a) (retry_limit co) 0 s of
        Updated new \<Rightarrow>
          if respects_contract s new then
            (let s1 = new\<lparr>workflow_history := workflow_history s @ [entry a now RUNNING]\<rparr>
             in case next_agent (table co) (limits co) cancel s1 of
                  Next a' \<Rightarrow> s1\<lparr>active_agent := Some a'\<rparr>
                | Terminate st err \<Rightarrow> s1\<lparr>status := st, active_agent := None, error := err\<rparr>)
          else fail a now ''agent_contract_violation'' s
      | FatalAgentError msg \<Rightarrow> fail a now msg s
      | RecoverableAgentError \<Rightarrow> fail a now ''retries_exhausted'' s)"

text \<open>
  Modelled from the spec: one step of a workflow (section 4.2 and 4.3): the first
  dispatch takes PENDING to RUNNING, a RUNNING workflow takes a turn of the loop, and a
  terminal workflow has no step.
\<close>

definition coordinator_step :: "coordinator \<Rightarrow> bool \<Rightarrow> nat \<Rightarrow> WorkflowState \<Rightarrow> WorkflowState" where
  "coordinator_step co cancel now s =
     (case status s of
        PENDING \<Rightarrow> s\<lparr>status := RUNNING, active_agent := Some (entry_agent (table co))\<rparr>
      | RUNNING \<Rightarrow>
          (case active_agent s of
             Some a \<Rightarrow> agent_step co cancel now a s
           | None \<Rightarrow> s\<lparr>status := FAILED, error := Some ''no_active_agent''\<rparr>)
      | _ \<Rightarrow> s)"

text \<open>Modelled from the spec: the state \<^verbatim>\<open>start\<close> constructs (section 4.3).\<close>

definition initial_state :: "string \<Rightarrow> WorkflowState" where
  "initial_state t =
     \<lparr>task = t, status = PENDING, files = [], messages = [], workflow_history = [],
      code_issues = [], review_notes = [], security_findings = [], active_agent = None,
      error = None\<rparr>"

text \<open>
  Modelled from the spec: how far a workflow is from a terminal status at most, in
  steps: the budget bounds the history (section 8).
\<close>

definition steps_left :: "coordinator \<Rightarrow> WorkflowState \<Rightarrow> nat" where
  "steps_left co s =
     (case status s of
        PENDING \<Rightarrow> max_invocations (limits co) + 3
      | RUNNING \<Rightarrow> Suc (max_invocations (limits co)) - length (workflow_history s) + 1
      | _ \<Rightarrow> 0)"

text \<open>A step of a workflow that is not over brings it nearer to its end.\<close>

lemma agent_step_history:
  "length (workflow_history (agent_step co cancel now a s)) = Suc (length (workflow_history s))"
  by (simp add: agent_step_def fail_def Let_def split: agent_result.splits verdict.splits)

lemma agent_step_status:
  "status s = RUNNING \<Longrightarrow>
   status (agent_step co cancel now a s) = RUNNING \<or> terminal (status (agent_step co cancel now a s))"
  by (auto simp: agent_step_def fail_def Let_def respects_contract_def next_agent_def
      split: agent_result.splits verdict.splits if_splits option.splits)

lemma agent_step_within_budget:
  "status (agent_step co cancel now a s) = RUNNING \<Longrightarrow>
   length (workflow_history (agent_step co cancel now a s)) \<le> max_invocations (limits co)"
  by (auto simp: agent_step_def fail_def Let_def next_agent_def budget_exceeded_def
      split: agent_result.splits verdict.splits if_splits option.splits)

lemma coordinator_step_decreases:
  assumes "\<not> terminal (status s)"
  shows "steps_left co (coordinator_step co cancel now s) < steps_left co s"
proof (cases "status s")
  case PENDING
  then show ?thesis by (simp add: coordinator_step_def steps_left_def)
next
  case RUNNING
  show ?thesis
  proof (cases "active_agent s")
    case None
    with RUNNING show ?thesis by (simp add: coordinator_step_def steps_left_def)
  next
    case (Some a)
    let ?s' = "agent_step co cancel now a s"
    have step: "coordinator_step co cancel now s = ?s'"
      using RUNNING Some by (simp add: coordinator_step_def)
    from agent_step_status [OF RUNNING, of co cancel now a]
    show ?thesis
    proof
      assume r: "status ?s' = RUNNING"
      from agent_step_within_budget [OF r] agent_step_history [of co cancel now a s]
      have "Suc (length (workflow_history s)) \<le> max_invocations (limits co)"
        and "length (workflow_history ?s') = Suc (length (workflow_history s))" by simp_all
      with r RUNNING show ?thesis
        unfolding step by (simp add: steps_left_def)
    next
      assume t: "terminal (status ?s')"
      then have "steps_left co ?s' = 0"
        by (cases "status ?s'") (simp_all add: steps_left_def)
      with RUNNING show ?thesis
        unfolding step by (simp add: steps_left_def)
    qed
  qed
qed (use assms in simp_all)

text \<open>
  Modelled from the spec: a workflow run to its end (section 4.3): the loop repeats until
  the status is terminal. No cancellation is requested during the run. That the loop ends
  is the termination proof: every turn adds a history entry and the budget bounds them.
\<close>

function run_workflow :: "coordinator \<Rightarrow> nat \<Rightarrow> WorkflowState \<Rightarrow> WorkflowState" where
  "run_workflow co now s =
     (if terminal (status s) then s
      else run_workflow co (Suc now) (coordinator_step co False now s))"
  by pat_completeness auto
termination
  by (relation "measure (\<lambda>(co, now, s). steps_left co s)")
     (simp_all add: coordinator_step_decreases)

declare run_workflow.simps [simp del]

text \<open>
  Modelled from the spec: the Coder \<rightarrow> Reviewer \<rightarrow> Terminate policy of scenarios A and B
  (section 8): the Reviewer's blocking issues go back to the Coder.
\<close>

definition coder_reviewer :: routing_table where
  "coder_reviewer =
     \<lparr>entry_agent = Coder,
      on_clean = (\<lambda>a. if a = Coder then Some Reviewer else None),
      on_blocking = (\<lambda>a. Coder)\<rparr>"

text \<open>
  Modelled from the spec: the agents of \<^verbatim>\<open>workflow_history\<close>, in order of invocation.
\<close>

definition ids :: "WorkflowState \<Rightarrow> agent_id list" where
  "ids s = map agent_id (workflow_history s)"

text \<open>
  Modelled from the spec: the budget test (section 4.2), on the list of the agents invoked.
\<close>

definition exceeded_ids :: "budget \<Rightarrow> agent_id list \<Rightarrow> bool" where
  "exceeded_ids b xs =
     (max_invocations b < length xs \<or>
      list_ex (\<lambda>a. max_repeats b < length (filter (\<lambda>x. x = a) xs)) xs)"

text \<open>
  Modelled from the spec: the outcome the budget forces (section 4.2): status FAILED with
  error \<^verbatim>\<open>iteration_limit_exceeded\<close>.
\<close>

definition failed_limit :: "WorkflowState \<Rightarrow> bool" where
  "failed_limit s = (status s = FAILED \<and> error s = Some ''iteration_limit_exceeded'')"

text \<open>
  Modelled from the spec: a running workflow in which agent \<open>a\<close> holds the turn after the
  invocations \<open>xs\<close>.
\<close>

definition turn_of :: "agent_id \<Rightarrow> agent_id list \<Rightarrow> WorkflowState \<Rightarrow> bool" where
  "turn_of a xs s = (status s = RUNNING \<and> active_agent s = Some a \<and> ids s = xs)"

text \<open>
  Modelled from the spec: WorkflowRecord, the Registry's entry (section 3): the current
  snapshot, the pending cancellation request and the subscribed connections; the id is
  the key. \<^verbatim>\<open>server.py\<close> is missing.
\<close>

record WorkflowRecord =
  snapshot :: WorkflowState
  cancel_requested :: bool
  subscribers :: "nat list"

text \<open>
  Modelled from the spec: the inbound messages of the transport protocol (section 4.5 and
  6); \<open>Malformed\<close> is a message that does not parse.
\<close>

datatype inbound =
    StartWorkflow string "string option"
  | CancelWorkflow string
  | GetWorkflowResults string
  | Subscribe string
  | Malformed string

text \<open>
  Modelled from the spec: the outbound events of the transport protocol (section 6).
\<close>

datatype outbound =
    Status string status "agent_id option"
  | WorkflowResults string WorkflowState
  | ErrorEvent "string option" string

text \<open>
  Modelled from the spec: the server's state: the Workflow Registry, the open
  connections, what each connection has been sent, the count of ids issued and a clock
  (section 4.4 and 4.5).
\<close>

record server =
  registry :: "string \<Rightarrow> WorkflowRecord option"
  connections :: "nat list"
  outbox :: "nat \<Rightarrow> outbound list"
  issued :: nat
  clock :: nat

text \<open>
  Modelled from the spec: the Registry is empty on process start (section 9).
\<close>

definition empty_server :: server where
  "empty_server = \<lparr>registry = Map.empty, connections = [], outbox = (\<lambda>c. []), issued = 0, clock = 0\<rparr>"

text \<open>
  Modelled from the spec: an event pushed to one connection (section 4.5).
\<close>

definition reply :: "nat \<Rightarrow> outbound \<Rightarrow> server \<Rightarrow> server" where
  "reply c ev sv = sv\<lparr>outbox := (outbox sv)(c := outbox sv c @ [ev])\<rparr>"

text \<open>
  Modelled from the spec: events pushed to the subscribed connections that are open, in
  the order produced (section 4.5).
\<close>

definition publish :: "nat list \<Rightarrow> outbound list \<Rightarrow> server \<Rightarrow> server" where
  "publish subs evs sv =
     sv\<lparr>outbox := (\<lambda>c. if c \<in> set subs \<and> c \<in> set (connections sv)
                         then outbox sv c @ evs else outbox sv c)\<rparr>"

text \<open>
  Modelled from the spec: \<^verbatim>\<open>start\<close> (section 4.3 and 7): an empty task is rejected
  before any workflow is created; the id is the one asked for or a fresh one, and is not
  issued while a workflow of that id is retained; the new workflow is PENDING and the
  requester is subscribed.
\<close>

definition start :: "nat \<Rightarrow> string \<Rightarrow> string option \<Rightarrow> server \<Rightarrow> server" where
  "start c t requested sv =
     (if t = [] then reply c (ErrorEvent requested ''task must not be empty'') sv
      else
        (let w = (case requested of Some w \<Rightarrow> w | None \<Rightarrow> ''wf-'' @ string_of_nat (issued sv))
         in case registry sv w of
              Some r \<Rightarrow> reply c (ErrorEvent (Some w) ''workflow id in use'') sv
            | None \<Rightarrow>
                sv\<lparr>registry := (registry sv)(w \<mapsto>
                      \<lparr>snapshot = initial_state t, cancel_requested = False, subscribers = [c]\<rparr>),
                   issued := Suc (issued sv)\<rparr>))"

text \<open>
  Modelled from the spec: the Transport Server's dispatch of one inbound message (section
  4.5 and 6): an unknown id and a malformed message are answered with an error event.
\<close>

definition handle :: "nat \<Rightarrow> inbound \<Rightarrow> server \<Rightarrow> server" where
  "handle c msg sv =
     (case msg of
        StartWorkflow t requested \<Rightarrow> start c t requested sv
      | CancelWorkflow w \<Rightarrow>
          (case registry sv w of
             None \<Rightarrow> reply c (ErrorEvent (Some w) ''unknown workflow'') sv
           | Some r \<Rightarrow> sv\<lparr>registry := (registry sv)(w \<mapsto> r\<lparr>cancel_requested := True\<rparr>)\<rparr>)
      | GetWorkflowResults w \<Rightarrow>
          (case registry sv w of
             None \<Rightarrow> reply c (ErrorEvent (Some w) ''unknown workflow'') sv
           | Some r \<Rightarrow> reply c (WorkflowResults w (snapshot r)) sv)
      | Subscribe w \<Rightarrow>
          (case registry sv w of
             None \<Rightarrow> reply c (ErrorEvent (Some w) ''unknown workflow'') sv
           | Some r \<Rightarrow> sv\<lparr>registry := (registry sv)(w \<mapsto> r\<lparr>subscribers := subscribers r @ [c]\<rparr>)\<rparr>)
      | Malformed body \<Rightarrow> reply c (ErrorEvent None ''malformed message'') sv)"

text \<open>
  Modelled from the spec: the Coordinator of workflow \<open>w\<close> takes one step and the
  Registry entry is updated in place; the status event, and the results on a terminal
  status, go to the subscribers (section 4.3, 4.4 and 6).
\<close>

definition advance :: "coordinator \<Rightarrow> string \<Rightarrow> server \<Rightarrow> server" where
  "advance co w sv =
     (case registry sv w of
        None \<Rightarrow> sv
      | Some r \<Rightarrow>
          if terminal (status (snapshot r)) then sv
          else
            (let s' = coordinator_step co (cancel_requested r) (clock sv) (snapshot r);
                 evs = Status w (status s') (active_agent s') #
                       (if terminal (status s') then [WorkflowResults w s'] else [])
             in publish (subscribers r) evs
                  (sv\<lparr>registry := (registry sv)(w \<mapsto> r\<lparr>snapshot := s'\<rparr>),
                      clock := Suc (clock sv)\<rparr>)))"

text \<open>
  Modelled from the spec: a terminal workflow is evicted after its retention period
  (section 4.4).
\<close>

definition evict :: "string \<Rightarrow> server \<Rightarrow> server" where
  "evict w sv =
     (case registry sv w of
        None \<Rightarrow> sv
      | Some r \<Rightarrow>
          if terminal (status (snapshot r)) then sv\<lparr>registry := (registry sv)(w := None)\<rparr> else sv)"

text \<open>
  Modelled from the spec: what happens at the server, one at a time: a connection opens or
  closes, a message arrives, a workflow takes a step, an entry is evicted (section 5).
\<close>

datatype action =
    Connect nat
  | Disconnect nat
  | Inbound nat inbound
  | Advance string
  | Evict string

text \<open>
  Modelled from the spec: the effect of one action (section 4.4 and 4.5); a message of a
  connection that is not open does not arrive.
\<close>

fun server_step :: "coordinator \<Rightarrow> server \<Rightarrow> action \<Rightarrow> server" where
  "server_step co sv (Connect c) =
     (if c \<in> set (connections sv) then sv else sv\<lparr>connections := connections sv @ [c]\<rparr>)"
| "server_step co sv (Disconnect c) = sv\<lparr>connections := removeAll c (connections sv)\<rparr>"
| "server_step co sv (Inbound c msg) = (if c \<in> set (connections sv) then handle c msg sv else sv)"
| "server_step co sv (Advance w) = advance co w sv"
| "server_step co sv (Evict w) = evict w sv"

text \<open>
  Modelled from the spec: the status state machine, in the spec's words (section 3 and
  4.2): PENDING \<rightarrow> RUNNING \<rightarrow> {COMPLETED, FAILED, CANCELLED}, staying put allowed, and
  no transition out of a terminal status.
\<close>

fun spec_transition :: "status \<Rightarrow> status \<Rightarrow> bool" where
  "spec_transition PENDING q = (q = PENDING \<or> q = RUNNING)"
| "spec_transition RUNNING q = (q = RUNNING \<or> terminal q)"
| "spec_transition p q = (q = p)"

text \<open>
  Modelled from the spec: scenario B (section 8): a Reviewer that always reports one
  blocking issue, a Coder that always writes its file, and a budget of 2 repeats.
\<close>

definition scenario_b :: coordinator where
  "scenario_b =
     \<lparr>agents = (\<lambda>a attempt s.
         if a = Reviewer
         then Updated (s\<lparr>code_issues := [\<lparr>blocking = True, description = ''empty input is accepted''\<rparr>]\<rparr>)
         else Updated (s\<lparr>files := (''parse_int.py'', ''def parse_int(text): ...'') # files s\<rparr>)),
      table = coder_reviewer,
      limits = \<lparr>max_invocations = 10, max_repeats = 2\<rparr>,
      retry_limit = 3\<rparr>"

text \<open>
  Modelled from the spec: scenario A (section 8): the same policy and budget with a
  Reviewer that reports no issue.
\<close>

definition scenario_a :: coordinator where
  "scenario_a =
     \<lparr>agents = (\<lambda>a attempt s.
         if a = Reviewer then Updated (s\<lparr>code_issues := []\<rparr>)
         else Updated (s\<lparr>files := (''parse_int.py'', ''def parse_int(text): ...'') # files s\<rparr>)),
      table = coder_reviewer,
      limits = \<lparr>max_invocations = 10, max_repeats = 2\<rparr>,
      retry_limit = 3\<rparr>"

text \<open>
  Modelled from the spec: scenario B with a total budget of no invocation at all.
\<close>

definition one_shot :: coordinator where
  "one_shot = scenario_b\<lparr>limits := \<lparr>max_invocations = 0, max_repeats = 2\<rparr>\<rparr>"

text \<open>
  Modelled from the spec: a server after one connection has opened and started a
  workflow.
\<close>

definition submitted :: server where
  "submitted =
     server_step one_shot (server_step one_shot empty_server (Connect 0))
       (Inbound 0 (StartWorkflow ''t'' None))"

section \<open>Properties of the extension\<close>

subsection \<open>checkConnection\<close>

lemma checkConnection_try_Resolved:
  "axios_get (status_url env) = Resolved d \<Longrightarrow>
   checkConnection_try axios_get env =
     (case get_status d of Inl e \<Rightarrow> Inl e | Inr v \<Rightarrow> Inr (v = JStr ''operational''))"
  by (simp add: checkConnection_try_def)

lemma get_status_operational:
  "(case get_status d of Inl e \<Rightarrow> False | Inr v \<Rightarrow> v = JStr ''operational'') =
   (status_field d = Some (JStr ''operational''))"
  by (cases d) (auto simp: status_field_def split: option.splits)

text \<open>
  C8. \<^verbatim>\<open>checkConnection\<close> always returns a boolean and never throws to its caller:
  when the request resolves, it returns true exactly when the body is an object whose
  \<^verbatim>\<open>status\<close> property is the string \<^verbatim>\<open>operational\<close> (a body of
  \<^verbatim>\<open>null\<close>, whose property read throws, gives false); when the request is rejected,
  it returns false.
\<close>

theorem checkConnection_total:
  "fst (checkConnection axios_get env) =
     Inr (case axios_get (status_url env) of
            Resolved d \<Rightarrow> status_field d = Some (JStr ''operational'')
          | Rejected e \<Rightarrow> False)"
proof (cases "axios_get (status_url env)")
  case (Resolved d)
  then show ?thesis
    using get_status_operational [of d]
    by (simp add: checkConnection_def checkConnection_try_Resolved split: sum.splits)
next
  case (Rejected e)
  then show ?thesis
    by (simp add: checkConnection_def checkConnection_try_def)
qed

theorem checkConnection_total_witness:
  "fst (checkConnection (\<lambda>u. if u = ''http://localhost:3000/status''
          then Resolved (JObj [(''status'', JStr ''operational'')]) else Rejected (Error ''ECONNREFUSED''))
        fresh_install) = Inr True
   \<and> fst (checkConnection (\<lambda>u. Resolved JNull) fresh_install) = Inr False
   \<and> fst (checkConnection (\<lambda>u. Resolved (JObj [(''status'', JStr ''down'')])) fresh_install) = Inr False
   \<and> fst (checkConnection (\<lambda>u. Rejected (Error ''Request failed with status code 503'')) fresh_install) = Inr False"
proof -
  have u: "status_url fresh_install = ''http://localhost:3000/status''"
    by (simp add: status_url_def getServerUrl_def config_get_def fresh_install_def
        manifest_defaults_def js_or_def)
  show ?thesis
    using checkConnection_total [of "\<lambda>u. if u = ''http://localhost:3000/status''
          then Resolved (JObj [(''status'', JStr ''operational'')]) else Rejected (Error ''ECONNREFUSED'')" fresh_install]
      checkConnection_total [of "\<lambda>u. Resolved JNull" fresh_install]
      checkConnection_total [of "\<lambda>u. Resolved (JObj [(''status'', JStr ''down'')])" fresh_install]
      checkConnection_total [of "\<lambda>u. Rejected (Error ''Request failed with status code 503'')" fresh_install]
    by (simp add: u status_field_def)
qed

subsection \<open>The URLs and the settings\<close>

lemma config_get_other_key:
  "section @ ''.'' @ key \<noteq> k \<Longrightarrow>
   config_get \<lparr>user_settings = (u(k := x)), contributed_defaults = (d(k := y))\<rparr> section key =
   config_get \<lparr>user_settings = u, contributed_defaults = d\<rparr> section key"
  by (auto simp: config_get_def split: option.splits)

lemma websocketUrl_fresh: "websocketUrl fresh_install = ''ws://localhost:8765''"
  by (simp add: websocketUrl_def config_get_def fresh_install_def manifest_defaults_def js_or_def)

lemma websocketUrl_port_65536: "websocketUrl port_65536 = ''ws://localhost:65536''"
  by (simp add: websocketUrl_def config_get_def port_65536_def manifest_defaults_def js_or_def)

text \<open>
  C9. With no setting made by the user, \<^verbatim>\<open>getServerUrl\<close> returns
  \<^verbatim>\<open>http://localhost:3000\<close> and \<^verbatim>\<open>startWebSocket\<close> connects to
  \<^verbatim>\<open>ws://localhost:8765\<close>. These are defaults of settings the code does read: a
  value the user gives \<^verbatim>\<open>sochen.serverUrl\<close> is what \<^verbatim>\<open>getServerUrl\<close> returns,
  and the values given \<^verbatim>\<open>ai-agent-system.websocketHost\<close> and
  \<^verbatim>\<open>ai-agent-system.websocketPort\<close> make up the WebSocket URL (a falsy value falls back
  to the default). The manifest declares the one setting \<^verbatim>\<open>agentSystem.serverUrl\<close>, with
  default \<^verbatim>\<open>ws://localhost:8765\<close>, and neither URL depends on it: whatever value the
  user gives that setting, and whatever default is declared for it, both URLs are what
  they are without it.
\<close>

theorem default_urls_ignore_manifest_setting:
  "getServerUrl fresh_install = JStr ''http://localhost:3000''
   \<and> websocketUrl fresh_install = ''ws://localhost:8765''
   \<and> getServerUrl \<lparr>user_settings = (u(''sochen.serverUrl'' \<mapsto> v)), contributed_defaults = d\<rparr> =
       (if truthy v then v else JStr ''http://localhost:3000'')
   \<and> websocketUrl \<lparr>user_settings = (u(''ai-agent-system.websocketHost'' \<mapsto> h,
                                        ''ai-agent-system.websocketPort'' \<mapsto> p)),
                    contributed_defaults = d\<rparr> =
       ''ws://'' @ to_string (if truthy h then h else JStr ''localhost'') @ '':'' @
                  to_string (if truthy p then p else JNum ''8765'')
   \<and> manifest_defaults ''agentSystem.serverUrl'' = Some (JStr ''ws://localhost:8765'')
   \<and> dom manifest_defaults = {''agentSystem.serverUrl''}
   \<and> getServerUrl \<lparr>user_settings = (u(''agentSystem.serverUrl'' := x)),
                    contributed_defaults = (d(''agentSystem.serverUrl'' := y))\<rparr>
       = getServerUrl \<lparr>user_settings = u, contributed_defaults = d\<rparr>
   \<and> websocketUrl \<lparr>user_settings = (u(''agentSystem.serverUrl'' := x)),
                    contributed_defaults = (d(''agentSystem.serverUrl'' := y))\<rparr>
       = websocketUrl \<lparr>user_settings = u, contributed_defaults = d\<rparr>"
proof -
  have a: "getServerUrl fresh_install = JStr ''http://localhost:3000''"
    by (simp add: getServerUrl_def config_get_def fresh_install_def manifest_defaults_def js_or_def)
  have r1: "getServerUrl \<lparr>user_settings = (u(''sochen.serverUrl'' \<mapsto> v)), contributed_defaults = d\<rparr> =
       (if truthy v then v else JStr ''http://localhost:3000'')"
    by (simp add: getServerUrl_def config_get_def js_or_def)
  have r2: "websocketUrl \<lparr>user_settings = (u(''ai-agent-system.websocketHost'' \<mapsto> h,
                                        ''ai-agent-system.websocketPort'' \<mapsto> p)),
                    contributed_defaults = d\<rparr> =
       ''ws://'' @ to_string (if truthy h then h else JStr ''localhost'') @ '':'' @
                  to_string (if truthy p then p else JNum ''8765'')"
    by (simp add: websocketUrl_def config_get_def js_or_def)
  have c: "manifest_defaults ''agentSystem.serverUrl'' = Some (JStr ''ws://localhost:8765'')"
    by (simp add: manifest_defaults_def)
  have d: "dom manifest_defaults = {''agentSystem.serverUrl''}"
    by (simp add: manifest_defaults_def)
  have e: "getServerUrl \<lparr>user_settings = (u(''agentSystem.serverUrl'' := x)),
                    contributed_defaults = (d(''agentSystem.serverUrl'' := y))\<rparr>
       = getServerUrl \<lparr>user_settings = u, contributed_defaults = d\<rparr>"
    by (simp add: getServerUrl_def config_get_other_key)
  have f: "websocketUrl \<lparr>user_settings = (u(''agentSystem.serverUrl'' := x)),
                    contributed_defaults = (d(''agentSystem.serverUrl'' := y))\<rparr>
       = websocketUrl \<lparr>user_settings = u, contributed_defaults = d\<rparr>"
    by (simp add: websocketUrl_def config_get_other_key)
  from a websocketUrl_fresh r1 r2 c d e f show ?thesis by blast
qed

theorem default_urls_ignore_manifest_setting_witness:
  "getServerUrl \<lparr>user_settings = [''sochen.serverUrl'' \<mapsto> JStr ''http://build-host:4000''],
                 contributed_defaults = manifest_defaults\<rparr> = JStr ''http://build-host:4000''
   \<and> websocketUrl \<lparr>user_settings = [''ai-agent-system.websocketHost'' \<mapsto> JStr ''build-host'',
                                    ''ai-agent-system.websocketPort'' \<mapsto> JNum ''9000''],
                 contributed_defaults = manifest_defaults\<rparr> = ''ws://build-host:9000''
   \<and> getServerUrl \<lparr>user_settings = [''agentSystem.serverUrl'' \<mapsto> JStr ''ws://build-host:9000''],
                 contributed_defaults = manifest_defaults\<rparr> = JStr ''http://localhost:3000''
   \<and> websocketUrl \<lparr>user_settings = [''agentSystem.serverUrl'' \<mapsto> JStr ''ws://build-host:9000''],
                 contributed_defaults = manifest_defaults\<rparr> = ''ws://localhost:8765''"
  using default_urls_ignore_manifest_setting
    [where u = Map.empty and v = "JStr ''http://build-host:4000''" and d = manifest_defaults
       and h = "JStr ''build-host''" and p = "JNum ''9000''"
       and x = "Some (JStr ''ws://build-host:9000'')" and y = "Some (JStr ''ws://localhost:8765'')"]
  by (simp add: fresh_install_def manifest_defaults_def)

subsection \<open>Starting a task\<close>

lemma startWebSocket_accepted:
  "new_WebSocket (websocketUrl env) = None \<Longrightarrow>
   startWebSocket new_WebSocket env t st =
     Inr (st\<lparr>socket := Some (length (sockets st)),
            sockets := sockets st @
              [\<lparr>ws_url = websocketUrl env, ready = CONNECTING, taskDescription = t\<rparr>],
            socket_ops := socket_ops st @ [New (length (sockets st)) (websocketUrl env)]\<rparr>)"
  by (simp add: startWebSocket_def Let_def)

lemma startWebSocket_refused:
  "new_WebSocket (websocketUrl env) = Some e \<Longrightarrow> startWebSocket new_WebSocket env t st = Inl e"
  by (simp add: startWebSocket_def)

text \<open>
  C4, as the code has it. The command validates the task description: when the input box
  is dismissed or left empty the state is what it was (no socket is created, nothing is
  sent, nothing is shown). For a non-empty description \<^verbatim>\<open>startWebSocket\<close> is called.
  When the WebSocket constructor accepts the configured URL, a new socket, in state
  CONNECTING and now the module's \<^verbatim>\<open>socket\<close>, is created for it; when the constructor
  throws, no socket is created, nothing is sent, and the command is rejected with the
  error after its notification. A socket that opens while it is the module's
  \<^verbatim>\<open>socket\<close> has its task description sent over it.
\<close>

theorem startTask_validates_task:
  "startTask new_WebSocket env None st = st
   \<and> startTask new_WebSocket env (Some []) st = st
   \<and> (new_WebSocket (websocketUrl env) = None \<longrightarrow>
        startTask new_WebSocket env (Some (c # cs)) st =
          st\<lparr>shown := shown st @ [InformationMessage (''Starting task: '' @ c # cs)],
             socket := Some (length (sockets st)),
             sockets := sockets st @
               [\<lparr>ws_url = websocketUrl env, ready = CONNECTING, taskDescription = c # cs\<rparr>],
             socket_ops := socket_ops st @ [New (length (sockets st)) (websocketUrl env)]\<rparr>)
   \<and> (new_WebSocket (websocketUrl env) = Some e \<longrightarrow>
        startTask new_WebSocket env (Some (c # cs)) st =
          st\<lparr>shown := shown st @ [InformationMessage (''Starting task: '' @ c # cs)],
             rejected := rejected st @ [e]\<rparr>)
   \<and> (r < length (sockets st) \<and> ready (sockets st ! r) = CONNECTING \<and> socket st = Some r \<longrightarrow>
        socket_ops (fire new_WebSocket env st (OnOpen r)) =
          socket_ops st @ [Send r (start_message (taskDescription (sockets st ! r))) OPEN])"
  by (simp add: startTask_def startWebSocket_accepted startWebSocket_refused Let_def onopen_def
      set_ready_def)

theorem startTask_validates_task_witness:
  "startTask refuses_port_65536 fresh_install None activated = activated
   \<and> startTask refuses_port_65536 fresh_install (Some []) activated = activated
   \<and> refuses_port_65536 (websocketUrl fresh_install) = None
   \<and> startTask refuses_port_65536 fresh_install (Some ''Add unit tests'') activated =
       activated\<lparr>shown := [InformationMessage ''Starting task: Add unit tests''],
          socket := Some 0,
          sockets := [\<lparr>ws_url = ''ws://localhost:8765'', ready = CONNECTING,
                       taskDescription = ''Add unit tests''\<rparr>],
          socket_ops := [New 0 ''ws://localhost:8765'']\<rparr>
   \<and> refuses_port_65536 (websocketUrl port_65536) = Some (Error ''Invalid URL: ws://localhost:65536'')
   \<and> startTask refuses_port_65536 port_65536 (Some ''Add unit tests'') activated =
       activated\<lparr>shown := [InformationMessage ''Starting task: Add unit tests''],
          rejected := [Error ''Invalid URL: ws://localhost:65536'']\<rparr>
   \<and> socket_ops (fire refuses_port_65536 fresh_install
         (startTask refuses_port_65536 fresh_install (Some ''Add unit tests'') activated) (OnOpen 0)) =
       [New 0 ''ws://localhost:8765'', Send 0 (JObj [(''task'', JStr ''Add unit tests'')]) OPEN]"
proof -
  let ?st = "startTask refuses_port_65536 fresh_install (Some ''Add unit tests'') activated"
  have ok: "refuses_port_65536 (websocketUrl fresh_install) = None"
    by (simp add: websocketUrl_fresh refuses_port_65536_def)
  have bad: "refuses_port_65536 (websocketUrl port_65536) =
      Some (Error ''Invalid URL: ws://localhost:65536'')"
    by (simp add: websocketUrl_port_65536 refuses_port_65536_def)
  note t1 = startTask_validates_task
    [where new_WebSocket = refuses_port_65536 and env = fresh_install and st = activated
       and c = "CHR ''A''" and cs = "''dd unit tests''"
       and e = "Error ''Invalid URL: ws://localhost:65536''" and r = 0]
  note t2 = startTask_validates_task
    [where new_WebSocket = refuses_port_65536 and env = port_65536 and st = activated
       and c = "CHR ''A''" and cs = "''dd unit tests''"
       and e = "Error ''Invalid URL: ws://localhost:65536''" and r = 0]
  note t3 = startTask_validates_task
    [where new_WebSocket = refuses_port_65536 and env = fresh_install and st = ?st
       and c = "CHR ''A''" and cs = "''dd unit tests''"
       and e = "Error ''Invalid URL: ws://localhost:65536''" and r = 0]
  from t1 ok have a: "startTask refuses_port_65536 fresh_install None activated = activated"
    "startTask refuses_port_65536 fresh_install (Some []) activated = activated"
    and b: "?st =
       activated\<lparr>shown := [InformationMessage ''Starting task: Add unit tests''],
          socket := Some 0,
          sockets := [\<lparr>ws_url = ''ws://localhost:8765'', ready = CONNECTING,
                       taskDescription = ''Add unit tests''\<rparr>],
          socket_ops := [New 0 ''ws://localhost:8765'']\<rparr>"
    by (simp_all add: websocketUrl_fresh activated_def)
  from t2 bad have c: "startTask refuses_port_65536 port_65536 (Some ''Add unit tests'') activated =
       activated\<lparr>shown := [InformationMessage ''Starting task: Add unit tests''],
          rejected := [Error ''Invalid URL: ws://localhost:65536'']\<rparr>"
    by (simp add: activated_def)
  have "0 < length (sockets ?st) \<and> ready (sockets ?st ! 0) = CONNECTING \<and> socket ?st = Some 0"
    unfolding b by (simp add: activated_def)
  with t3 have "socket_ops (fire refuses_port_65536 fresh_install ?st (OnOpen 0)) =
      socket_ops ?st @ [Send 0 (start_message (taskDescription (sockets ?st ! 0))) OPEN]"
    by blast
  then have d: "socket_ops (fire refuses_port_65536 fresh_install ?st (OnOpen 0)) =
       [New 0 ''ws://localhost:8765'', Send 0 (JObj [(''task'', JStr ''Add unit tests'')]) OPEN]"
    unfolding b by (simp add: activated_def start_message_def)
  from a ok b bad c d show ?thesis by blast
qed

text \<open>
  C4, as stated, fails: with the port set to 65536 the constructor throws on the URL, and
  the non-empty task ``Add unit tests'' starts nothing: no socket exists, nothing was
  done to a socket, and the command was rejected.
\<close>

theorem nonempty_task_starts_nothing:
  "websocketUrl port_65536 = ''ws://localhost:65536''
   \<and> refuses_port_65536 ''ws://localhost:65536'' = Some (Error ''Invalid URL: ws://localhost:65536'')
   \<and> sockets (run refuses_port_65536 port_65536 [StartTask (Some ''Add unit tests'')]) = []
   \<and> socket (run refuses_port_65536 port_65536 [StartTask (Some ''Add unit tests'')]) = None
   \<and> socket_ops (run refuses_port_65536 port_65536 [StartTask (Some ''Add unit tests'')]) = []
   \<and> rejected (run refuses_port_65536 port_65536 [StartTask (Some ''Add unit tests'')]) =
       [Error ''Invalid URL: ws://localhost:65536'']"
  by (simp add: run_def startTask_def startWebSocket_def websocketUrl_port_65536
      refuses_port_65536_def activated_def)

subsection \<open>The start message\<close>
















subsection \<open>Sockets that are not open\<close>

lemma deactivate_without_socket:
  "socket st = None \<Longrightarrow>
   socket_ops (deactivate st) = socket_ops st \<and> sockets (deactivate st) = sockets st"
  by (simp add: deactivate_def)

text \<open>
  C10 does not hold of the code. The \<^verbatim>\<open>onopen\<close> handler sends through the module
  variable \<^verbatim>\<open>socket\<close>, which a second \<^verbatim>\<open>startTask\<close> has pointed at a newer socket:
  when two tasks are started and the first socket opens, the first task is sent on the
  second socket, which is still CONNECTING. This is so under the default settings, for
  every constructor that accepts the default URL.
\<close>

theorem overlapping_starts_send_on_connecting_socket:
  "socket_ops (run (new_WebSocket(''ws://localhost:8765'' := None)) fresh_install
       [StartTask (Some ''A''), StartTask (Some ''B''), OnOpen 0]) =
     [New 0 ''ws://localhost:8765'', New 1 ''ws://localhost:8765'',
      Send 1 (JObj [(''task'', JStr ''A'')]) CONNECTING]
   \<and> send_on_unopened (run (new_WebSocket(''ws://localhost:8765'' := None)) fresh_install
       [StartTask (Some ''A''), StartTask (Some ''B''), OnOpen 0])"
  by (simp add: run_def activated_def startTask_def startWebSocket_def Let_def onopen_def
      set_ready_def websocketUrl_fresh start_message_def send_on_unopened_def)

section \<open>Properties of the workflow server\<close>

lemma run_workflow_terminal: "terminal (status (run_workflow co now s))"
proof (induction co now s rule: run_workflow.induct)
  case (1 co now s)
  then show ?case by (subst run_workflow.simps) simp
qed

lemma invocations_ids: "invocations a s = length (filter (\<lambda>x. x = a) (ids s))"
  by (simp add: invocations_def ids_def filter_map comp_def)

lemma budget_exceeded_ids: "budget_exceeded b s = exceeded_ids b (ids s)"
  by (simp add: budget_exceeded_def exceeded_ids_def invocations_ids list_ex_iff)
     (simp add: ids_def)

lemma invoke_first_attempt:
  "run_agent 0 s = Updated new \<Longrightarrow> invoke run_agent n 0 s = Updated new"
  by (cases n) simp_all

lemma agent_step_Updated:
  assumes "agents co a 0 s = Updated new" and "respects_contract s new"
  shows "agent_step co cancel now a s =
     (let s1 = new\<lparr>workflow_history := workflow_history s @ [entry a now RUNNING]\<rparr>
      in case next_agent (table co) (limits co) cancel s1 of
           Next a' \<Rightarrow> s1\<lparr>active_agent := Some a'\<rparr>
         | Terminate st err \<Rightarrow> s1\<lparr>status := st, active_agent := None, error := err\<rparr>)"
  using assms by (simp add: agent_step_def invoke_first_attempt)

lemma coder_turn:
  assumes tab: "table co = coder_reviewer"
    and ok: "\<forall>s. \<exists>new. agents co Coder 0 s = Updated new \<and> respects_contract s new"
    and at: "turn_of Coder xs s"
  shows "if exceeded_ids (limits co) (xs @ [Coder])
         then failed_limit (coordinator_step co False now s)
         else turn_of Reviewer (xs @ [Coder]) (coordinator_step co False now s)"
proof -
  from ok obtain new where new: "agents co Coder 0 s = Updated new" "respects_contract s new"
    by blast
  let ?s1 = "new\<lparr>workflow_history := workflow_history s @ [entry Coder now RUNNING]\<rparr>"
  have i: "ids ?s1 = xs @ [Coder]"
    using at by (simp add: ids_def turn_of_def entry_def)
  have a: "active_agent ?s1 = Some Coder" "status ?s1 = RUNNING"
    using at new(2) by (simp_all add: turn_of_def respects_contract_def)
  have n: "next_agent (table co) (limits co) False ?s1 =
      (if exceeded_ids (limits co) (xs @ [Coder])
       then Terminate FAILED (Some ''iteration_limit_exceeded'') else Next Reviewer)"
    unfolding next_agent_def budget_exceeded_ids i
    by (simp add: a tab coder_reviewer_def)
  have "coordinator_step co False now s = agent_step co False now Coder s"
    using at by (simp add: coordinator_step_def turn_of_def)
  also have "\<dots> = (case next_agent (table co) (limits co) False ?s1 of
           Next a' \<Rightarrow> ?s1\<lparr>active_agent := Some a'\<rparr>
         | Terminate st err \<Rightarrow> ?s1\<lparr>status := st, active_agent := None, error := err\<rparr>)"
    using agent_step_Updated [OF new] by (simp add: Let_def)
  finally show ?thesis
    using i a by (simp add: n failed_limit_def turn_of_def ids_def)
qed

lemma reviewer_turn:
  assumes tab: "table co = coder_reviewer"
    and blocks: "\<forall>s. invocations Reviewer s < 2 \<longrightarrow>
        (\<exists>new. agents co Reviewer 0 s = Updated new \<and> respects_contract s new \<and>
              list_ex blocking (code_issues new))"
    and at: "turn_of Reviewer xs s"
    and few: "length (filter (\<lambda>x. x = Reviewer) xs) < 2"
  shows "if exceeded_ids (limits co) (xs @ [Reviewer])
         then failed_limit (coordinator_step co False now s)
         else turn_of Coder (xs @ [Reviewer]) (coordinator_step co False now s)"
proof -
  have "invocations Reviewer s < 2"
    using at few by (simp add: invocations_ids turn_of_def)
  with blocks obtain new where
    new: "agents co Reviewer 0 s = Updated new" "respects_contract s new"
    and b: "list_ex blocking (code_issues new)"
    by blast
  let ?s1 = "new\<lparr>workflow_history := workflow_history s @ [entry Reviewer now RUNNING]\<rparr>"
  have i: "ids ?s1 = xs @ [Reviewer]"
    using at by (simp add: ids_def turn_of_def entry_def)
  have a: "active_agent ?s1 = Some Reviewer" "status ?s1 = RUNNING"
    using at new(2) by (simp_all add: turn_of_def respects_contract_def)
  have n: "next_agent (table co) (limits co) False ?s1 =
      (if exceeded_ids (limits co) (xs @ [Reviewer])
       then Terminate FAILED (Some ''iteration_limit_exceeded'') else Next Coder)"
    unfolding next_agent_def budget_exceeded_ids i
    using b by (simp add: a tab coder_reviewer_def)
  have "coordinator_step co False now s = agent_step co False now Reviewer s"
    using at by (simp add: coordinator_step_def turn_of_def)
  also have "\<dots> = (case next_agent (table co) (limits co) False ?s1 of
           Next a' \<Rightarrow> ?s1\<lparr>active_agent := Some a'\<rparr>
         | Terminate st err \<Rightarrow> ?s1\<lparr>status := st, active_agent := None, error := err\<rparr>)"
    using agent_step_Updated [OF new] by (simp add: Let_def)
  finally show ?thesis
    using i a by (simp add: n failed_limit_def turn_of_def ids_def)
qed

lemma run_failed_limit: "failed_limit s \<Longrightarrow> run_workflow co now s = s"
  by (subst run_workflow.simps) (simp add: failed_limit_def)

lemma run_turn:
  "turn_of a xs s \<Longrightarrow>
   run_workflow co now s = run_workflow co (Suc now) (coordinator_step co False now s)"
  by (subst run_workflow.simps) (simp add: turn_of_def)

text \<open>
  The model on scenario B: with a budget of 2 repeats, a Coder that succeeds and a
  Reviewer that reports a blocking issue on its first two invocations, the run ends
  FAILED with error \<^verbatim>\<open>iteration_limit_exceeded\<close>.
\<close>

lemma scenario_b_run:
  assumes tab: "table co = coder_reviewer"
    and rep: "max_repeats (limits co) = 2"
    and ok: "\<forall>s. \<exists>new. agents co Coder 0 s = Updated new \<and> respects_contract s new"
    and blocks: "\<forall>s. invocations Reviewer s < 2 \<longrightarrow>
        (\<exists>new. agents co Reviewer 0 s = Updated new \<and> respects_contract s new \<and>
              list_ex blocking (code_issues new))"
  shows "failed_limit (run_workflow co now (initial_state t))"
proof -
  note ct = coder_turn [OF tab ok]
  note rt = reviewer_turn [OF tab blocks]
  have fin: "failed_limit s \<Longrightarrow> failed_limit (run_workflow co n s)" for s n
    by (simp add: run_failed_limit)
  have l5: "failed_limit (run_workflow co n s)"
    if "turn_of Coder [Coder, Reviewer, Coder, Reviewer] s" for s n
  proof -
    have "exceeded_ids (limits co) ([Coder, Reviewer, Coder, Reviewer] @ [Coder])"
      by (simp add: exceeded_ids_def rep)
    with ct [OF that, of n] have "failed_limit (coordinator_step co False n s)" by simp
    then show ?thesis using run_turn [OF that, of co n] by (simp add: fin)
  qed
  have l4: "failed_limit (run_workflow co n s)"
    if "turn_of Reviewer [Coder, Reviewer, Coder] s" for s n
  proof -
    have "length (filter (\<lambda>x. x = Reviewer) [Coder, Reviewer, Coder]) < 2" by simp
    from rt [OF that this, of n] show ?thesis
      using run_turn [OF that, of co n] l5 fin by (auto split: if_splits)
  qed
  have l3: "failed_limit (run_workflow co n s)"
    if "turn_of Coder [Coder, Reviewer] s" for s n
    using ct [OF that, of n] run_turn [OF that, of co n] l4 fin by (auto split: if_splits)
  have l2: "failed_limit (run_workflow co n s)"
    if "turn_of Reviewer [Coder] s" for s n
  proof -
    have "length (filter (\<lambda>x. x = Reviewer) [Coder]) < 2" by simp
    from rt [OF that this, of n] show ?thesis
      using run_turn [OF that, of co n] l3 fin by (auto split: if_splits)
  qed
  have l1: "failed_limit (run_workflow co n s)"
    if "turn_of Coder [] s" for s n
    using ct [OF that, of n] run_turn [OF that, of co n] l2 fin by (auto split: if_splits)
  have "turn_of Coder [] (coordinator_step co False now (initial_state t))"
    by (simp add: coordinator_step_def initial_state_def turn_of_def ids_def tab coder_reviewer_def)
  from l1 [OF this] show ?thesis
    by (subst run_workflow.simps) (simp add: initial_state_def)
qed

lemma agent_step_terminal_or_running:
  "status s = RUNNING \<Longrightarrow> spec_transition RUNNING (status (agent_step co cancel now a s))"
  using agent_step_status [of s co cancel now a] by simp

lemma coordinator_step_transition:
  "spec_transition (status s) (status (coordinator_step co cancel now s))"
proof (cases "status s")
  case RUNNING
  then show ?thesis
    using agent_step_terminal_or_running [OF RUNNING, of co cancel now]
    by (cases "active_agent s") (simp_all add: coordinator_step_def)
qed (simp_all add: coordinator_step_def)

lemma coordinator_step_terminal:
  "terminal (status s) \<Longrightarrow> coordinator_step co cancel now s = s"
  by (cases "status s") (simp_all add: coordinator_step_def)

lemma spec_transition_refl: "spec_transition p p"
  by (cases p) simp_all

lemma registry_reply [simp]: "registry (reply c ev sv) = registry sv"
  by (simp add: reply_def)

lemma registry_publish [simp]: "registry (publish subs evs sv) = registry sv"
  by (simp add: publish_def)

lemma handle_snapshot:
  assumes "registry sv w = Some r" and "registry (handle c msg sv) w = Some r'"
  shows "snapshot r' = snapshot r"
proof (cases msg)
  case (StartWorkflow t requested)
  with assms show ?thesis
    by (auto simp: handle_def start_def Let_def split: if_splits option.splits)
next
  case (CancelWorkflow v)
  with assms show ?thesis
    by (auto simp: handle_def split: if_splits option.splits)
next
  case (GetWorkflowResults v)
  with assms show ?thesis
    by (auto simp: handle_def split: if_splits option.splits)
next
  case (Subscribe v)
  with assms show ?thesis
    by (auto simp: handle_def split: if_splits option.splits)
next
  case (Malformed body)
  with assms show ?thesis
    by (auto simp: handle_def split: if_splits option.splits)
qed

lemma advance_snapshot:
  assumes "registry sv w = Some r" and "registry (advance co v sv) w = Some r'"
  shows "snapshot r' = snapshot r \<or>
         (\<not> terminal (status (snapshot r)) \<and>
          snapshot r' = coordinator_step co (cancel_requested r) (clock sv) (snapshot r))"
  using assms
  by (auto simp: advance_def Let_def split: option.splits if_splits)

lemma evict_snapshot:
  assumes "registry sv w = Some r" and "registry (evict v sv) w = Some r'"
  shows "snapshot r' = snapshot r"
  using assms by (auto simp: evict_def split: option.splits if_splits)

lemma server_step_snapshot:
  assumes "registry sv w = Some r" and "registry (server_step co sv a) w = Some r'"
  shows "snapshot r' = snapshot r \<or>
         (\<not> terminal (status (snapshot r)) \<and>
          (\<exists>cancel now. snapshot r' = coordinator_step co cancel now (snapshot r)))"
proof (cases a)
  case (Connect c)
  with assms show ?thesis by (auto split: if_splits)
next
  case (Disconnect c)
  with assms show ?thesis by auto
next
  case (Inbound c msg)
  with assms handle_snapshot [of sv w r c msg r'] show ?thesis by (auto split: if_splits)
next
  case (Advance v)
  with assms advance_snapshot [of sv w r co v r'] show ?thesis by auto
next
  case (Evict v)
  with assms evict_snapshot [of sv w r v r'] show ?thesis by auto
qed

text \<open>
  C2. Across every action of the server, and every step of a Coordinator, the status of a
  workflow moves along PENDING \<rightarrow> RUNNING \<rightarrow> {COMPLETED, FAILED, CANCELLED} only, and a
  workflow whose status is terminal keeps its snapshot: no operation changes it.
\<close>

theorem status_only_moves_forward:
  assumes "registry sv w = Some r" and "registry (server_step co sv a) w = Some r'"
  shows "spec_transition (status (snapshot r)) (status (snapshot r'))
         \<and> (terminal (status (snapshot r)) \<longrightarrow> snapshot r' = snapshot r)
         \<and> spec_transition (status s) (status (coordinator_step co cancel now s))
         \<and> (terminal (status s) \<longrightarrow> coordinator_step co cancel now s = s)"
proof -
  have "spec_transition (status (snapshot r)) (status (snapshot r'))
         \<and> (terminal (status (snapshot r)) \<longrightarrow> snapshot r' = snapshot r)"
    using server_step_snapshot [OF assms] coordinator_step_transition spec_transition_refl
    by auto
  then show ?thesis
    by (simp add: coordinator_step_transition coordinator_step_terminal)
qed

text \<open>
  C6. A request for the results of a workflow id the Registry does not hold is answered,
  on the requesting connection, with the error event \<^verbatim>\<open>unknown workflow\<close>; nothing
  else of the server changes, the connection stays open, and a command that follows on
  it is accepted (here: a workflow is started under that very id).
\<close>

theorem unknown_workflow_keeps_connection:
  assumes "c \<in> set (connections sv)" and "registry sv w = None"
  shows "server_step co sv (Inbound c (GetWorkflowResults w)) =
           sv\<lparr>outbox := (outbox sv)(c := outbox sv c @ [ErrorEvent (Some w) ''unknown workflow''])\<rparr>
         \<and> c \<in> set (connections (server_step co sv (Inbound c (GetWorkflowResults w))))
         \<and> (\<exists>r. registry (server_step co (server_step co sv (Inbound c (GetWorkflowResults w)))
                   (Inbound c (StartWorkflow (x # xs) (Some w)))) w = Some r
                \<and> snapshot r = initial_state (x # xs) \<and> subscribers r = [c])"
  using assms by (simp add: handle_def reply_def start_def)

lemma invoke_unfold:
  "invoke r n k s =
     (case r k s of
        RecoverableAgentError \<Rightarrow>
          (case n of 0 \<Rightarrow> FatalAgentError ''retries_exhausted'' | Suc m \<Rightarrow> invoke r m (Suc k) s)
      | Updated x \<Rightarrow> Updated x
      | FatalAgentError m \<Rightarrow> FatalAgentError m)"
  by (cases n) (simp_all split: agent_result.splits)

text \<open>
  The model on scenario A: the run ends COMPLETED after two invocations, so the budget
  does not fail every run.
\<close>

lemma scenario_a_completes:
  "status (run_workflow scenario_a 0 (initial_state ''add input validation to parse_int'')) = COMPLETED
   \<and> length (workflow_history
        (run_workflow scenario_a 0 (initial_state ''add input validation to parse_int''))) = 2"
proof -
  let ?t = "''add input validation to parse_int''"
  let ?s1 = "(initial_state ?t)\<lparr>status := RUNNING, active_agent := Some Coder\<rparr>"
  let ?s2 = "(initial_state ?t)\<lparr>status := RUNNING, active_agent := Some Reviewer,
        files := [(''parse_int.py'', ''def parse_int(text): ...'')],
        workflow_history := [entry Coder 1 RUNNING]\<rparr>"
  let ?s3 = "(initial_state ?t)\<lparr>status := COMPLETED, active_agent := None,
        files := [(''parse_int.py'', ''def parse_int(text): ...'')],
        workflow_history := [entry Coder 1 RUNNING, entry Reviewer 2 RUNNING]\<rparr>"
  have a: "coordinator_step scenario_a False 0 (initial_state ?t) = ?s1"
    by (simp add: coordinator_step_def initial_state_def scenario_a_def coder_reviewer_def)
  have b: "coordinator_step scenario_a False (Suc 0) ?s1 = ?s2"
    by (simp add: coordinator_step_def agent_step_def initial_state_def scenario_a_def
      coder_reviewer_def respects_contract_def next_agent_def budget_exceeded_def Let_def
      invoke_unfold entry_def invocations_def)
  have c: "coordinator_step scenario_a False (Suc (Suc 0)) ?s2 = ?s3"
    by (simp add: coordinator_step_def agent_step_def initial_state_def scenario_a_def
      coder_reviewer_def respects_contract_def next_agent_def budget_exceeded_def Let_def
      invoke_unfold entry_def invocations_def)
  have "run_workflow scenario_a 0 (initial_state ?t) = run_workflow scenario_a (Suc 0) ?s1"
    using run_workflow.simps [of scenario_a 0 "initial_state ?t"] a
    by (simp add: initial_state_def)
  also have "\<dots> = run_workflow scenario_a (Suc (Suc 0)) ?s2"
    using run_workflow.simps [of scenario_a "Suc 0" ?s1] b by simp
  also have "\<dots> = run_workflow scenario_a (Suc (Suc (Suc 0))) ?s3"
    using run_workflow.simps [of scenario_a "Suc (Suc 0)" ?s2] c by simp
  also have "\<dots> = ?s3"
    using run_workflow.simps [of scenario_a "Suc (Suc (Suc 0))" ?s3] by simp
  finally show ?thesis by simp
qed

lemma one_shot_first:
  "coordinator_step one_shot False 0 (initial_state ''t'') =
     (initial_state ''t'')\<lparr>status := RUNNING, active_agent := Some Coder\<rparr>"
  by (simp add: coordinator_step_def initial_state_def one_shot_def scenario_b_def coder_reviewer_def)

lemma one_shot_second:
  "coordinator_step one_shot False 1 ((initial_state ''t'')\<lparr>status := RUNNING, active_agent := Some Coder\<rparr>) =
     (initial_state ''t'')\<lparr>status := FAILED, error := Some ''iteration_limit_exceeded'',
        files := [(''parse_int.py'', ''def parse_int(text): ...'')],
        workflow_history := [entry Coder 1 RUNNING], active_agent := None\<rparr>"
  by (simp add: coordinator_step_def agent_step_def initial_state_def one_shot_def scenario_b_def
      coder_reviewer_def respects_contract_def next_agent_def budget_exceeded_def Let_def
      invoke_unfold entry_def)

lemma advance_registry:
  "registry sv w = Some r \<Longrightarrow> \<not> terminal (status (snapshot r)) \<Longrightarrow>
   registry (advance co w sv) w =
     Some (r\<lparr>snapshot := coordinator_step co (cancel_requested r) (clock sv) (snapshot r)\<rparr>)
   \<and> clock (advance co w sv) = Suc (clock sv)"
  by (simp add: advance_def Let_def publish_def)

lemma submitted_registry:
  "registry submitted ''wf-0'' =
     Some \<lparr>snapshot = initial_state ''t'', cancel_requested = False, subscribers = [0]\<rparr>
   \<and> clock submitted = 0"
  by (simp add: submitted_def empty_server_def handle_def start_def string_of_nat.simps)

lemma dispatched_registry:
  "registry (server_step one_shot submitted (Advance ''wf-0'')) ''wf-0'' =
     Some \<lparr>snapshot = (initial_state ''t'')\<lparr>status := RUNNING, active_agent := Some Coder\<rparr>,
           cancel_requested = False, subscribers = [0]\<rparr>
   \<and> clock (server_step one_shot submitted (Advance ''wf-0'')) = 1"
  using advance_registry [of submitted "''wf-0''" _ one_shot] submitted_registry
  by (simp add: one_shot_first) (simp add: initial_state_def)

lemma finished_registry:
  "registry (server_step one_shot (server_step one_shot submitted (Advance ''wf-0''))
      (Advance ''wf-0'')) ''wf-0'' =
     Some \<lparr>snapshot = (initial_state ''t'')\<lparr>status := FAILED,
             error := Some ''iteration_limit_exceeded'',
             files := [(''parse_int.py'', ''def parse_int(text): ...'')],
             workflow_history := [entry Coder 1 RUNNING], active_agent := None\<rparr>,
           cancel_requested = False, subscribers = [0]\<rparr>"
  using advance_registry [of "server_step one_shot submitted (Advance ''wf-0'')" "''wf-0''" _ one_shot]
    dispatched_registry one_shot_second
  by simp

lemma connections_advance [simp]: "connections (advance co w sv) = connections sv"
  by (simp add: advance_def Let_def publish_def split: option.splits)

lemma connections_submitted: "connections submitted = [0]"
  by (simp add: submitted_def empty_server_def handle_def start_def Let_def split: option.splits)

lemma cancel_registry:
  "c \<in> set (connections sv) \<Longrightarrow> registry sv w = Some r \<Longrightarrow>
   registry (server_step co sv (Inbound c (CancelWorkflow w))) w = Some (r\<lparr>cancel_requested := True\<rparr>)"
  by (simp add: handle_def)

theorem status_only_moves_forward_witness:
  "registry submitted ''wf-0'' =
     Some \<lparr>snapshot = initial_state ''t'', cancel_requested = False, subscribers = [0]\<rparr>
   \<and> registry (server_step one_shot submitted (Advance ''wf-0'')) ''wf-0'' =
     Some \<lparr>snapshot = (initial_state ''t'')\<lparr>status := RUNNING, active_agent := Some Coder\<rparr>,
           cancel_requested = False, subscribers = [0]\<rparr>
   \<and> spec_transition (status (initial_state ''t''))
        (status ((initial_state ''t'')\<lparr>status := RUNNING, active_agent := Some Coder\<rparr>))
   \<and> status (initial_state ''t'') = PENDING
   \<and> (\<exists>r. registry (server_step one_shot (server_step one_shot submitted (Advance ''wf-0''))
               (Advance ''wf-0'')) ''wf-0'' = Some r
          \<and> status (snapshot r) = FAILED
          \<and> (\<exists>r'. registry (server_step one_shot
                 (server_step one_shot (server_step one_shot submitted (Advance ''wf-0''))
                    (Advance ''wf-0''))
                 (Inbound 0 (CancelWorkflow ''wf-0''))) ''wf-0'' = Some r'
               \<and> snapshot r' = snapshot r))"
proof -
  let ?r0 = "\<lparr>snapshot = initial_state ''t'', cancel_requested = False, subscribers = [0::nat]\<rparr>"
  let ?r1 = "\<lparr>snapshot = (initial_state ''t'')\<lparr>status := RUNNING, active_agent := Some Coder\<rparr>,
           cancel_requested = False, subscribers = [0::nat]\<rparr>"
  let ?sv2 = "server_step one_shot (server_step one_shot submitted (Advance ''wf-0'')) (Advance ''wf-0'')"
  let ?r2 = "\<lparr>snapshot = (initial_state ''t'')\<lparr>status := FAILED,
             error := Some ''iteration_limit_exceeded'',
             files := [(''parse_int.py'', ''def parse_int(text): ...'')],
             workflow_history := [entry Coder 1 RUNNING], active_agent := None\<rparr>,
           cancel_requested = False, subscribers = [0::nat]\<rparr>"
  have a: "registry submitted ''wf-0'' = Some ?r0"
    using submitted_registry by simp
  have b: "registry (server_step one_shot submitted (Advance ''wf-0'')) ''wf-0'' = Some ?r1"
    using dispatched_registry by simp
  from status_only_moves_forward [OF a b]
  have c: "spec_transition (status (initial_state ''t''))
        (status ((initial_state ''t'')\<lparr>status := RUNNING, active_agent := Some Coder\<rparr>))"
    by simp
  have d: "status (initial_state ''t'') = PENDING"
    by (simp add: initial_state_def)
  have e: "registry ?sv2 ''wf-0'' = Some ?r2"
    using finished_registry by simp
  have f: "registry (server_step one_shot ?sv2 (Inbound 0 (CancelWorkflow ''wf-0''))) ''wf-0'' =
      Some (?r2\<lparr>cancel_requested := True\<rparr>)"
    by (rule cancel_registry [OF _ e]) (simp add: connections_submitted)
  from status_only_moves_forward [OF e f]
  have g: "snapshot (?r2\<lparr>cancel_requested := True\<rparr>) = snapshot ?r2"
    by simp
  have h: "status (snapshot ?r2) = FAILED" by simp
  from a b c d e f g h show ?thesis by blast
qed

theorem unknown_workflow_keeps_connection_witness:
  "7 \<in> set (connections (server_step one_shot empty_server (Connect 7)))
   \<and> registry (server_step one_shot empty_server (Connect 7)) ''wf-41'' = None
   \<and> outbox (server_step one_shot (server_step one_shot empty_server (Connect 7))
               (Inbound 7 (GetWorkflowResults ''wf-41''))) 7 =
       [ErrorEvent (Some ''wf-41'') ''unknown workflow'']
   \<and> 7 \<in> set (connections (server_step one_shot (server_step one_shot empty_server (Connect 7))
               (Inbound 7 (GetWorkflowResults ''wf-41''))))"
proof -
  let ?sv = "server_step one_shot empty_server (Connect 7)"
  have a: "7 \<in> set (connections ?sv)" and b: "registry ?sv ''wf-41'' = None"
    by (simp_all add: empty_server_def)
  from unknown_workflow_keeps_connection [OF a b, of one_shot "CHR ''t''" "[]"]
  have "outbox (server_step one_shot ?sv (Inbound 7 (GetWorkflowResults ''wf-41''))) 7 =
       outbox ?sv 7 @ [ErrorEvent (Some ''wf-41'') ''unknown workflow'']"
    and c: "7 \<in> set (connections (server_step one_shot ?sv (Inbound 7 (GetWorkflowResults ''wf-41''))))"
    by simp_all
  then have "outbox (server_step one_shot ?sv (Inbound 7 (GetWorkflowResults ''wf-41''))) 7 =
       [ErrorEvent (Some ''wf-41'') ''unknown workflow'']"
    by (simp add: empty_server_def)
  with a b c show ?thesis by blast
qed

end
